theory Spec2Isabelle
  imports Main
begin

section \<open>Identifiers and their string forms\<close>

text \<open>
  The route handlers compare identifiers through \<^verbatim>\<open>toString()\<close>. An ObjectId prints
  as its hexadecimal digits, so an identifier is modelled as the list of its digits
  (twenty-four of them in the database) and \<open>oid_toString\<close> gives the printed form.
\<close>

datatype hexdigit =
  H0 | H1 | H2 | H3 | H4 | H5 | H6 | H7 | H8 | H9 | Ha | Hb | Hc | Hd | He | Hf

type_synonym objectid = "hexdigit list"

fun hexchar :: "hexdigit \<Rightarrow> char" where
  "hexchar H0 = CHR ''0''"
| "hexchar H1 = CHR ''1''"
| "hexchar H2 = CHR ''2''"
| "hexchar H3 = CHR ''3''"
| "hexchar H4 = CHR ''4''"
| "hexchar H5 = CHR ''5''"
| "hexchar H6 = CHR ''6''"
| "hexchar H7 = CHR ''7''"
| "hexchar H8 = CHR ''8''"
| "hexchar H9 = CHR ''9''"
| "hexchar Ha = CHR ''a''"
| "hexchar Hb = CHR ''b''"
| "hexchar Hc = CHR ''c''"
| "hexchar Hd = CHR ''d''"
| "hexchar He = CHR ''e''"
| "hexchar Hf = CHR ''f''"

definition oid_toString :: "objectid \<Rightarrow> string" where
  "oid_toString i = map hexchar i"

section \<open>Documents\<close>

text \<open>
  Modelled from the spec: the Mongoose schemas (\<^verbatim>\<open>models/Event\<close>, \<^verbatim>\<open>models/User\<close>,
  \<^verbatim>\<open>models/Club\<close>, \<^verbatim>\<open>models/University\<close>, \<^verbatim>\<open>models/EventRegistration\<close>) are not among the
  source files. The records below have the fields the handlers read and write, with the
  shapes the data model of the specification gives them: an attendee is a subdocument with
  a user reference and the attended flag (false by default, as when a handler pushes
  \<^verbatim>\<open>{ user: req.user._id }\<close>); a review has a user reference, a rating and a comment; a
  registration has the event and user references and the snapshot fields.
  Dates are milliseconds since the epoch, and a request reads the clock once. A number
  field that may be absent is an \<open>int option\<close>; an absent string is the empty string (both
  are falsy in the handlers). A save or update of a collection succeeds.
\<close>

record attendee =
  user :: objectid
  attended :: bool

record review =
  review_user :: objectid
  rating :: int
  comment :: string

record event =
  title :: string
  club :: "objectid option"
  university :: "objectid option"
  startDate :: int
  isRegistrationRequired :: bool
  registrationDeadline :: "int option"
  capacity :: "int option"
  maxAttendees :: "int option"
  attendees :: "attendee list"
  reviews :: "review list"

record attended_event =
  ea_event :: objectid
  attendedDate :: int

record user_doc =
  name :: string
  user_university :: "objectid option"
  eventsAttended :: "attended_event list"

record university_doc =
  university_name :: string

record club_doc =
  president :: "objectid option"

record registration =
  reg_event :: objectid
  eventTitle :: "string option"
  reg_user :: objectid
  studentName :: "string option"
  reg_university :: "objectid option"
  universityName :: "string option"
  registeredAt :: "int option"

text \<open>The collections. The registration collection is a list: it may hold duplicates.\<close>

record db =
  events :: "objectid \<rightharpoonup> event"
  users :: "objectid \<rightharpoonup> user_doc"
  universities :: "objectid \<rightharpoonup> university_doc"
  clubs :: "objectid \<rightharpoonup> club_doc"
  registrations :: "registration list"

text \<open>The authenticated caller, as \<^verbatim>\<open>verifyToken\<close> leaves it in \<^verbatim>\<open>req.user\<close>.\<close>

record caller =
  caller_id :: objectid
  role :: string

text \<open>What a handler sends: the status and the message of the JSON body.\<close>

datatype response = Response (status: nat) (message: string)

text \<open>The exceptions a handler body can raise before its \<^verbatim>\<open>catch\<close> turns them into a response.\<close>

datatype js_error = TypeError | ReferenceError

section \<open>Helpers for the JavaScript idioms\<close>

text \<open>
  \<^verbatim>\<open>attendee.toString()\<close> on a subdocument prints the whole document, an object literal in
  braces with its fields (the layout of the fields depends on the Mongoose version; every
  layout opens with a brace).
\<close>

definition attendee_toString :: "attendee \<Rightarrow> string" where
  "attendee_toString a =
     ''{ user: '' @ oid_toString (user a) @ '', attended: ''
       @ (if attended a then ''true'' else ''false'') @ '' }''"

text \<open>\<^verbatim>\<open>.populate(field)\<close>: the referenced document, or null when the reference is unset or dangling.\<close>

definition populate :: "(objectid \<rightharpoonup> 'd) \<Rightarrow> objectid option \<Rightarrow> (objectid \<times> 'd) option" where
  "populate coll ref =
     (case ref of
        None \<Rightarrow> None
      | Some i \<Rightarrow> (case coll i of None \<Rightarrow> None | Some d \<Rightarrow> Some (i, d)))"

text \<open>\<^verbatim>\<open>a || b\<close> on optional numbers: zero and absent are falsy.\<close>

definition js_or :: "int option \<Rightarrow> int option \<Rightarrow> int option" where
  "js_or a b = (case a of None \<Rightarrow> b | Some x \<Rightarrow> if x = 0 then b else Some x)"

text \<open>\<^verbatim>\<open>cap && event.attendees.length >= cap\<close>\<close>

definition at_capacity :: "int option \<Rightarrow> nat \<Rightarrow> bool" where
  "at_capacity cap n = (case cap of None \<Rightarrow> False | Some c \<Rightarrow> c \<noteq> 0 \<and> c \<le> int n)"

text \<open>\<^verbatim>\<open>event.registrationDeadline && new Date() > event.registrationDeadline\<close>\<close>

definition deadline_passed :: "int option \<Rightarrow> int \<Rightarrow> bool" where
  "deadline_passed deadline now = (case deadline of None \<Rightarrow> False | Some d \<Rightarrow> d < now)"

text \<open>\<^verbatim>\<open>User.findByIdAndUpdate(id, { $push: { eventsAttended: {event, attendedDate} } })\<close>\<close>

definition push_eventsAttended ::
  "(objectid \<rightharpoonup> user_doc) \<Rightarrow> objectid \<Rightarrow> objectid \<Rightarrow> int \<Rightarrow> (objectid \<rightharpoonup> user_doc)" where
  "push_eventsAttended us uid eid now =
     (case us uid of
        None \<Rightarrow> us
      | Some u \<Rightarrow>
          us(uid \<mapsto> u\<lparr>eventsAttended :=
                        eventsAttended u @ [\<lparr>ea_event = eid, attendedDate = now\<rparr>]\<rparr>))"

text \<open>\<^verbatim>\<open>User.findByIdAndUpdate(id, { $pull: { eventsAttended: { event: eid } } })\<close>\<close>

definition pull_eventsAttended ::
  "(objectid \<rightharpoonup> user_doc) \<Rightarrow> objectid \<Rightarrow> objectid \<Rightarrow> (objectid \<rightharpoonup> user_doc)" where
  "pull_eventsAttended us uid eid =
     (case us uid of
        None \<Rightarrow> us
      | Some u \<Rightarrow>
          us(uid \<mapsto> u\<lparr>eventsAttended :=
                        filter (\<lambda>x. ea_event x \<noteq> eid) (eventsAttended u)\<rparr>))"

text \<open>\<^verbatim>\<open>EventRegistration.findOne({ event: eid, user: uid })\<close>\<close>

definition findRegistration :: "registration list \<Rightarrow> objectid \<Rightarrow> objectid \<Rightarrow> registration option" where
  "findRegistration rs eid uid = find (\<lambda>r. reg_event r = eid \<and> reg_user r = uid) rs"

text \<open>\<^verbatim>\<open>event.title || 'Unknown Event'\<close>\<close>

definition eventTitle_of :: "event \<Rightarrow> string" where
  "eventTitle_of ev = (if title ev = [] then ''Unknown Event'' else title ev)"

text \<open>
  The university name stored with a registration (both register handlers, same text):
  \<^verbatim>\<open>
  let universityName = (event.university && event.university.name)
                    || (user.university && user.university.name);
  if (!universityName) {
      const uniDoc = await University.findById(event.university._id || event.university);
      universityName = uniDoc ? uniDoc.name : 'Unknown University';
  }
  \<close>
  \<open>eu\<close> is the populated \<^verbatim>\<open>event.university\<close>, \<open>usr\<close> the result of
  \<^verbatim>\<open>User.findById(...).populate('university', 'name')\<close> (null when the user is gone).
  Reading a property of null raises TypeError.
\<close>

definition resolveUniversityName ::
  "db \<Rightarrow> (objectid \<times> university_doc) option \<Rightarrow> user_doc option \<Rightarrow> js_error + string" where
  "resolveUniversityName s eu usr =
     (let a = (case eu of None \<Rightarrow> [] | Some (i, d) \<Rightarrow> university_name d) in
      if a \<noteq> [] then Inr a
      else
        (case usr of
           None \<Rightarrow> Inl TypeError
         | Some u \<Rightarrow>
             (let b = (case populate (universities s) (user_university u) of
                         None \<Rightarrow> []
                       | Some (i, d) \<Rightarrow> university_name d) in
              if b \<noteq> [] then Inr b
              else
                (case eu of
                   None \<Rightarrow> Inl TypeError
                 | Some (i, d) \<Rightarrow>
                     (case universities s i of
                        None \<Rightarrow> Inr ''Unknown University''
                      | Some uniDoc \<Rightarrow> Inr (university_name uniDoc))))))"

text \<open>
  \<^verbatim>\<open>
  new EventRegistration({ event: event._id, eventTitle, user: req.user._id,
      studentName: user.name, university: user.university._id, universityName,
      registeredAt: new Date() })
  \<close>
  TypeError when the user, or the user's populated university, is null.
\<close>

definition newRegistration ::
  "db \<Rightarrow> objectid \<Rightarrow> event \<Rightarrow> objectid \<Rightarrow> user_doc option \<Rightarrow> string \<Rightarrow> int
     \<Rightarrow> js_error + registration" where
  "newRegistration s eid ev uid usr uname now =
     (case usr of
        None \<Rightarrow> Inl TypeError
      | Some u \<Rightarrow>
          (case populate (universities s) (user_university u) of
             None \<Rightarrow> Inl TypeError
           | Some (i, d) \<Rightarrow>
               Inr \<lparr>reg_event = eid, eventTitle = Some (eventTitle_of ev), reg_user = uid,
                    studentName = Some (name u), reg_university = Some i,
                    universityName = Some uname, registeredAt = Some now\<rparr>))"

definition push_attendee :: "event \<Rightarrow> objectid \<Rightarrow> event" where
  "push_attendee ev uid = ev\<lparr>attendees := attendees ev @ [\<lparr>user = uid, attended = False\<rparr>]\<rparr>"

section \<open>POST /api/events/:id/register, first handler\<close>

text \<open>
  The part after the attendee has been pushed and the event saved: the user's
  \<open>eventsAttended\<close> push, the university name, the duplicate check on the registration
  collection, the registration's save, the final response. The registration is built and
  saved inside an inner \<^verbatim>\<open>try\<close> whose \<^verbatim>\<open>catch\<close> answers 500; the last line
  \<^verbatim>\<open>return res.status(201).json({ message: 'Registered successfully', registration })\<close>
  is outside that block, where the block's \<^verbatim>\<open>const registration\<close> is not in scope, so
  building the body raises ReferenceError.
\<close>

definition register1_store ::
  "db \<Rightarrow> objectid \<Rightarrow> event \<Rightarrow> objectid \<Rightarrow> int \<Rightarrow> (js_error + response) \<times> db" where
  "register1_store s eid ev uid now =
     (let s1 = s\<lparr>users := push_eventsAttended (users s) uid eid now\<rparr>;
          usr = users s1 uid
      in case resolveUniversityName s1 (populate (universities s1) (university ev)) usr of
           Inl err \<Rightarrow> (Inl err, s1)
         | Inr uname \<Rightarrow>
             (case findRegistration (registrations s1) eid uid of
                Some existing \<Rightarrow>
                  (Inr (Response 400
                     ''You are already registered for this event (eventregistrations).''), s1)
              | None \<Rightarrow>
                  (case newRegistration s1 eid ev uid usr uname now of
                     Inl err \<Rightarrow> (Inr (Response 500 ''Failed to save registration.''), s1)
                   | Inr reg \<Rightarrow>
                       (Inl ReferenceError,
                        s1\<lparr>registrations := registrations s1 @ [reg]\<rparr>))))"

text \<open>
  The checks, in the order of the source, then the push and \<^verbatim>\<open>event.save()\<close>:
  \<^verbatim>\<open>
  if (!event) return res.status(404)...
  if (!event.isRegistrationRequired) return res.status(400)...
  if (event.registrationDeadline && new Date() > event.registrationDeadline) return res.status(400)...
  if (event.capacity && event.attendees.length >= event.capacity) return res.status(400)...
  const isRegistered = event.attendees.some(
      attendee => attendee.user && attendee.user.toString() === req.user._id.toString());
  if (isRegistered) return res.status(400)...
  event.attendees.push({ user: req.user._id });
  await event.save();
  \<close>
  The guard \<^verbatim>\<open>attendee.user &&\<close> is true of every stored reference.
\<close>

definition register1_body ::
  "db \<Rightarrow> objectid \<Rightarrow> objectid \<Rightarrow> int \<Rightarrow> (js_error + response) \<times> db" where
  "register1_body s eid uid now =
     (case events s eid of
        None \<Rightarrow> (Inr (Response 404 ''Event not found''), s)
      | Some ev \<Rightarrow>
          if \<not> isRegistrationRequired ev then
            (Inr (Response 400 ''Registration is not required for this event''), s)
          else if deadline_passed (registrationDeadline ev) now then
            (Inr (Response 400 ''Registration deadline has passed''), s)
          else if at_capacity (capacity ev) (length (attendees ev)) then
            (Inr (Response 400 ''Event is at full capacity''), s)
          else if list_ex (\<lambda>a. oid_toString (user a) = oid_toString uid) (attendees ev) then
            (Inr (Response 400 ''You are already registered for this event''), s)
          else
            register1_store (s\<lparr>events := (events s)(eid \<mapsto> push_attendee ev uid)\<rparr>)
              eid (push_attendee ev uid) uid now)"

text \<open>
  The outer \<^verbatim>\<open>catch\<close> of both register handlers. No exception of the model is named
  ValidationError, so every one of them is answered with 500.
\<close>

definition register_catch :: "(js_error + response) \<times> db \<Rightarrow> response \<times> db" where
  "register_catch r =
     (case fst r of
        Inl err \<Rightarrow> (Response 500 ''Registration failed. Please try again.'', snd r)
      | Inr resp \<Rightarrow> (resp, snd r))"

definition register1 :: "db \<Rightarrow> objectid \<Rightarrow> objectid \<Rightarrow> int \<Rightarrow> response \<times> db" where
  "register1 s eid uid now = register_catch (register1_body s eid uid now)"

section \<open>POST /api/events/:id/register, second handler\<close>

text \<open>
  The second handler makes both duplicate checks before it pushes the attendee, reads
  \<^verbatim>\<open>const capacity = event.maxAttendees || event.capacity\<close> for the capacity check, answers
  duplicates with 409, does not touch the user's \<open>eventsAttended\<close>, and builds the
  registration in the scope of its last line, which answers 201.
\<close>

definition register2_store ::
  "db \<Rightarrow> objectid \<Rightarrow> event \<Rightarrow> objectid \<Rightarrow> int \<Rightarrow> (js_error + response) \<times> db" where
  "register2_store s eid ev uid now =
     (let usr = users s uid
      in case resolveUniversityName s (populate (universities s) (university ev)) usr of
           Inl err \<Rightarrow> (Inl err, s)
         | Inr uname \<Rightarrow>
             (case newRegistration s eid ev uid usr uname now of
                Inl err \<Rightarrow> (Inl err, s)
              | Inr reg \<Rightarrow>
                  (Inr (Response 201 ''Registered successfully''),
                   s\<lparr>registrations := registrations s @ [reg]\<rparr>)))"

definition register2_body ::
  "db \<Rightarrow> objectid \<Rightarrow> objectid \<Rightarrow> int \<Rightarrow> (js_error + response) \<times> db" where
  "register2_body s eid uid now =
     (case events s eid of
        None \<Rightarrow> (Inr (Response 404 ''Event not found''), s)
      | Some ev \<Rightarrow>
          if \<not> isRegistrationRequired ev then
            (Inr (Response 400 ''Registration is not required for this event''), s)
          else if deadline_passed (registrationDeadline ev) now then
            (Inr (Response 400 ''Registration deadline has passed''), s)
          else if at_capacity (js_or (maxAttendees ev) (capacity ev)) (length (attendees ev)) then
            (Inr (Response 400 ''Event is at full capacity''), s)
          else if list_ex (\<lambda>a. oid_toString (user a) = oid_toString uid) (attendees ev) then
            (Inr (Response 409 ''You have already registered for this event.''), s)
          else
            (case findRegistration (registrations s) eid uid of
               Some existing \<Rightarrow>
                 (Inr (Response 409 ''You have already registered for this event.''), s)
             | None \<Rightarrow>
                 register2_store (s\<lparr>events := (events s)(eid \<mapsto> push_attendee ev uid)\<rparr>)
                   eid (push_attendee ev uid) uid now))"

definition register2 :: "db \<Rightarrow> objectid \<Rightarrow> objectid \<Rightarrow> int \<Rightarrow> response \<times> db" where
  "register2 s eid uid now = register_catch (register2_body s eid uid now)"

text \<open>
  The runs that pass every check and do every write. The second handler answers them
  with 201. The first handler ends them in the ReferenceError of its last line, which its
  \<^verbatim>\<open>catch\<close> answers with 500: it has no run that is answered 201.
\<close>

definition register1_completed :: "db \<Rightarrow> objectid \<Rightarrow> objectid \<Rightarrow> int \<Rightarrow> bool" where
  "register1_completed s eid uid now = (fst (register1_body s eid uid now) = Inl ReferenceError)"

definition register2_succeeded :: "db \<Rightarrow> objectid \<Rightarrow> objectid \<Rightarrow> int \<Rightarrow> bool" where
  "register2_succeeded s eid uid now = (status (fst (register2 s eid uid now)) = 201)"

section \<open>POST /api/events/:id/unregister\<close>

text \<open>
  \<^verbatim>\<open>
  event.attendees = event.attendees.filter(
      attendee => attendee.toString() !== req.user._id.toString());
  \<close>
  The filter prints the subdocument, not its \<^verbatim>\<open>user\<close> field.
\<close>

definition unregister :: "db \<Rightarrow> objectid \<Rightarrow> objectid \<Rightarrow> int \<Rightarrow> response \<times> db" where
  "unregister s eid uid now =
     (case events s eid of
        None \<Rightarrow> (Response 404 ''Event not found'', s)
      | Some ev \<Rightarrow>
          if startDate ev \<le> now then
            (Response 400 ''Cannot unregister from an event that has already started'', s)
          else
            (let ev' = ev\<lparr>attendees :=
                          filter (\<lambda>a. attendee_toString a \<noteq> oid_toString uid) (attendees ev)\<rparr>;
                 s1 = s\<lparr>events := (events s)(eid \<mapsto> ev')\<rparr>;
                 s2 = s1\<lparr>users := pull_eventsAttended (users s1) uid eid\<rparr>
             in (Response 200 ''Successfully unregistered from the event'', s2)))"

section \<open>PUT /api/events/:id/attendees/:userId/attendance\<close>

text \<open>\<^verbatim>\<open>event.club?.president?.toString()\<close> on the populated club: undefined when either is missing.\<close>

definition club_president :: "db \<Rightarrow> event \<Rightarrow> string option" where
  "club_president s ev =
     (case populate (clubs s) (club ev) of
        None \<Rightarrow> None
      | Some (i, c) \<Rightarrow> map_option oid_toString (president c))"

text \<open>
  \<^verbatim>\<open>
  const attendee = event.attendees?.find(a => a?.user?.toString() === req.params.userId);
  if (!attendee) return res.status(404)...
  attendee.attended = attended;
  \<close>
  The first matching entry is updated in place; \<open>None\<close> when no entry matches.
\<close>

fun mark_first :: "(attendee \<Rightarrow> bool) \<Rightarrow> bool \<Rightarrow> attendee list \<Rightarrow> attendee list option" where
  "mark_first P v [] = None"
| "mark_first P v (a # as) =
     (if P a then Some (a\<lparr>attended := v\<rparr> # as)
      else map_option ((#) a) (mark_first P v as))"

definition markAttendance :: "db \<Rightarrow> caller \<Rightarrow> objectid \<Rightarrow> string \<Rightarrow> bool \<Rightarrow> response \<times> db" where
  "markAttendance s c eid userId att =
     (case events s eid of
        None \<Rightarrow> (Response 404 ''Event not found'', s)
      | Some ev \<Rightarrow>
          if club_president s ev \<noteq> Some (oid_toString (caller_id c)) \<and> role c \<noteq> ''Administrator''
          then (Response 403 ''Not authorized to mark attendance for this event'', s)
          else
            (case mark_first (\<lambda>a. oid_toString (user a) = userId) att (attendees ev) of
               None \<Rightarrow> (Response 404 ''Attendee not found in this event'', s)
             | Some as \<Rightarrow>
                 (Response 200 [], s\<lparr>events := (events s)(eid \<mapsto> ev\<lparr>attendees := as\<rparr>)\<rparr>)))"

section \<open>POST /api/events/:id/review\<close>

text \<open>
  The handler that answers the route (the file registers a second handler for the same
  path after it, which is never reached because this one always responds).
\<close>

definition submitReview :: "db \<Rightarrow> objectid \<Rightarrow> objectid \<Rightarrow> int \<Rightarrow> string \<Rightarrow> response \<times> db" where
  "submitReview s eid uid rt cm =
     (case events s eid of
        None \<Rightarrow> (Response 404 ''Event not found'', s)
      | Some ev \<Rightarrow>
          if \<not> list_ex (\<lambda>a. oid_toString (user a) = oid_toString uid \<and> attended a) (attendees ev)
          then (Response 400 ''You must attend the event before leaving a review'', s)
          else
            (case find (\<lambda>r. oid_toString (review_user r) = oid_toString uid) (reviews ev) of
               Some alreadyReviewed \<Rightarrow> (Response 400 ''You already reviewed this event'', s)
             | None \<Rightarrow>
                 (Response 200 ''Review added successfully'',
                  s\<lparr>events := (events s)(eid \<mapsto>
                       ev\<lparr>reviews := reviews ev
                             @ [\<lparr>review_user = uid, rating = rt, comment = cm\<rparr>]\<rparr>)\<rparr>)))"

section \<open>POST /api/event-registrations\<close>




definition bareRegistration :: "objectid \<Rightarrow> objectid \<Rightarrow> registration" where
  "bareRegistration e u =
     \<lparr>reg_event = e, eventTitle = None, reg_user = u, studentName = None,
      reg_university = None, universityName = None, registeredAt = None\<rparr>"


section \<open>Sample documents\<close>

text \<open>Identifiers and documents used to run the handlers on concrete requests.\<close>

definition eventE :: objectid where
  "eventE = [H6, H5, H0, Hf, H1, Ha, H2, Hb, H3, Hc, H4, Hd, H5, He, H6, Hf, H7, H0, H8, H1, H9, H2, H0, H1]"

definition userA :: objectid where
  "userA = [H6, H5, H0, Hf, H1, Ha, H2, Hb, H3, Hc, H4, Hd, H5, He, H6, Hf, H7, H0, H8, H1, H9, H2, H0, Ha]"

definition userB :: objectid where
  "userB = [H6, H5, H0, Hf, H1, Ha, H2, Hb, H3, Hc, H4, Hd, H5, He, H6, Hf, H7, H0, H8, H1, H9, H2, H0, Hb]"

definition uniU :: objectid where
  "uniU = [H6, H5, H0, Hf, H1, Ha, H2, Hb, H3, Hc, H4, Hd, H5, He, H6, Hf, H7, H0, H8, H1, H9, H2, H0, Hc]"

definition clubC :: objectid where
  "clubC = [H6, H5, H0, Hf, H1, Ha, H2, Hb, H3, Hc, H4, Hd, H5, He, H6, Hf, H7, H0, H8, H1, H9, H2, H0, Hd]"

definition student :: "string \<Rightarrow> user_doc" where
  "student n = \<lparr>name = n, user_university = Some uniU, eventsAttended = []\<rparr>"

text \<open>An event that requires registration, starts at time 1000 and has no deadline.\<close>

definition sampleEvent :: "int option \<Rightarrow> int option \<Rightarrow> attendee list \<Rightarrow> event" where
  "sampleEvent cap maxAtt as =
     \<lparr>title = ''Tech Talk'', club = Some clubC, university = Some uniU, startDate = 1000,
      isRegistrationRequired = True, registrationDeadline = None, capacity = cap,
      maxAttendees = maxAtt, attendees = as, reviews = []\<rparr>"

definition sampleDb :: "event \<Rightarrow> registration list \<Rightarrow> db" where
  "sampleDb ev rs =
     \<lparr>events = [eventE \<mapsto> ev],
      users = [userA \<mapsto> student ''Alice'', userB \<mapsto> student ''Bob''],
      universities = [uniU \<mapsto> \<lparr>university_name = ''State University''\<rparr>],
      clubs = [clubC \<mapsto> \<lparr>president = Some userB\<rparr>],
      registrations = rs\<rparr>"

text \<open>The same event with a registration deadline at time 10.\<close>

definition sampleEventUntil10 :: "int option \<Rightarrow> int option \<Rightarrow> attendee list \<Rightarrow> event" where
  "sampleEventUntil10 cap maxAtt as = (sampleEvent cap maxAtt as)\<lparr>registrationDeadline := Some 10\<rparr>"

text \<open>Bob is the president of the sample club.\<close>

definition bob :: caller where
  "bob = \<lparr>caller_id = userB, role = ''Student''\<rparr>"

section \<open>Basic facts\<close>

lemma hexchar_inj: "hexchar a = hexchar b \<Longrightarrow> a = b"
  by (cases a; cases b; simp)

lemma oid_toString_eq [simp]: "oid_toString a = oid_toString b \<longleftrightarrow> a = b"
proof -
  have "inj hexchar"
    by (rule injI) (rule hexchar_inj)
  then show ?thesis
    unfolding oid_toString_def by (rule inj_map_eq_map)
qed

lemma hexchar_not_brace: "hexchar d \<noteq> CHR ''{''"
  by (cases d) simp_all

lemma attendee_toString_not_id [simp]: "attendee_toString a \<noteq> oid_toString uid"
proof (cases uid)
  case Nil
  then show ?thesis by (simp add: attendee_toString_def oid_toString_def)
next
  case (Cons d ds)
  then show ?thesis
    using hexchar_not_brace [of d] by (auto simp: attendee_toString_def oid_toString_def)
qed

lemma unregister_filter_keeps_all:
  "filter (\<lambda>a. attendee_toString a \<noteq> oid_toString uid) xs = xs"
  by simp

lemma attending_iff:
  "list_ex (\<lambda>a. user a = uid) as \<longleftrightarrow> uid \<in> user ` set as"
  by (auto simp: list_ex_iff)

lemma register2_store_cases:
  "(\<exists>e. register2_store s eid ev uid now = (Inl e, s)) \<or>
   (\<exists>reg. register2_store s eid ev uid now =
      (Inr (Response 201 ''Registered successfully''),
       s\<lparr>registrations := registrations s @ [reg]\<rparr>))"
  by (auto simp: register2_store_def Let_def split: sum.split)

lemma register1_store_cases:
  "(register1_store s eid ev uid now =
      (Inl TypeError, s\<lparr>users := push_eventsAttended (users s) uid eid now\<rparr>)) \<or>
   (\<exists>r. register1_store s eid ev uid now =
      (Inr r, s\<lparr>users := push_eventsAttended (users s) uid eid now\<rparr>)) \<or>
   (\<exists>reg. findRegistration (registrations s) eid uid = None \<and>
      register1_store s eid ev uid now =
      (Inl ReferenceError,
       s\<lparr>users := push_eventsAttended (users s) uid eid now,
         registrations := registrations s @ [reg]\<rparr>))"
proof -
  have "e = TypeError" if "resolveUniversityName s' eu usr = Inl e" for s' eu usr e
    using that
    by (auto simp: resolveUniversityName_def Let_def split: option.splits if_splits prod.splits)
  then show ?thesis
    by (auto simp: register1_store_def Let_def split: sum.split option.split)
qed

lemma register2_rejected_unchanged:
  assumes "status (fst (register2 s eid uid now)) \<in> {400, 404, 409}"
  shows "snd (register2 s eid uid now) = s"
proof (cases "events s eid")
  case None
  then show ?thesis by (simp add: register2_def register_catch_def register2_body_def)
next
  case (Some ev)
  show ?thesis
    using assms Some
      register2_store_cases [of "s\<lparr>events := (events s)(eid \<mapsto> push_attendee ev uid)\<rparr>"
        eid "push_attendee ev uid" uid now]
    by (auto simp: register2_def register_catch_def register2_body_def
        split: if_splits option.splits)
qed

lemma register2_succeeded_state:
  assumes "register2_succeeded s eid uid now"
  shows "\<exists>ev reg. events s eid = Some ev \<and> isRegistrationRequired ev
     \<and> \<not> deadline_passed (registrationDeadline ev) now
     \<and> \<not> at_capacity (js_or (maxAttendees ev) (capacity ev)) (length (attendees ev))
     \<and> uid \<notin> user ` set (attendees ev) \<and> findRegistration (registrations s) eid uid = None
     \<and> snd (register2 s eid uid now) =
        s\<lparr>events := (events s)(eid \<mapsto> push_attendee ev uid),
          registrations := registrations s @ [reg]\<rparr>"
proof (cases "events s eid")
  case None
  then show ?thesis
    using assms
    by (simp add: register2_succeeded_def register2_def register_catch_def register2_body_def)
next
  case (Some ev)
  show ?thesis
    using assms Some
      register2_store_cases [of "s\<lparr>events := (events s)(eid \<mapsto> push_attendee ev uid)\<rparr>"
        eid "push_attendee ev uid" uid now]
    by (auto simp: register2_succeeded_def register2_def register_catch_def register2_body_def
        attending_iff split: if_splits option.splits)
qed

lemma register1_completed_state:
  assumes "register1_completed s eid uid now"
  shows "\<exists>ev reg. events s eid = Some ev \<and> isRegistrationRequired ev
     \<and> \<not> deadline_passed (registrationDeadline ev) now
     \<and> \<not> at_capacity (capacity ev) (length (attendees ev))
     \<and> uid \<notin> user ` set (attendees ev) \<and> findRegistration (registrations s) eid uid = None
     \<and> snd (register1_body s eid uid now) =
        s\<lparr>events := (events s)(eid \<mapsto> push_attendee ev uid),
          users := push_eventsAttended (users s) uid eid now,
          registrations := registrations s @ [reg]\<rparr>"
proof (cases "events s eid")
  case None
  then show ?thesis using assms by (simp add: register1_completed_def register1_body_def)
next
  case (Some ev)
  show ?thesis
    using assms Some
      register1_store_cases [of "s\<lparr>events := (events s)(eid \<mapsto> push_attendee ev uid)\<rparr>"
        eid "push_attendee ev uid" uid now]
    by (auto simp: register1_completed_def register1_body_def attending_iff split: if_splits)
qed

lemma register2_attending:
  assumes "events s eid = Some ev" "isRegistrationRequired ev" "uid \<in> user ` set (attendees ev)"
  shows "register2 s eid uid now =
      (if deadline_passed (registrationDeadline ev) now then Response 400 ''Registration deadline has passed''
       else if at_capacity (js_or (maxAttendees ev) (capacity ev)) (length (attendees ev)) then Response 400 ''Event is at full capacity''
       else Response 409 ''You have already registered for this event.'', s)"
  using assms by (simp add: register2_def register_catch_def register2_body_def attending_iff)

lemma register1_attending:
  assumes "events s eid = Some ev" "isRegistrationRequired ev" "uid \<in> user ` set (attendees ev)"
  shows "register1 s eid uid now =
      (if deadline_passed (registrationDeadline ev) now then Response 400 ''Registration deadline has passed''
       else if at_capacity (capacity ev) (length (attendees ev)) then Response 400 ''Event is at full capacity''
       else Response 400 ''You are already registered for this event'', s)"
  using assms by (simp add: register1_def register_catch_def register1_body_def attending_iff)

lemma register1_snd: "snd (register1 s eid uid now) = snd (register1_body s eid uid now)"
  by (simp add: register1_def register_catch_def split: sum.split)

lemma register2_keeps_capacity:
  assumes "events s eid = Some ev"
    and "js_or (maxAttendees ev) (capacity ev) = Some C" and "C \<noteq> 0"
    and "int (length (attendees ev)) \<le> C"
  shows "\<exists>ev'. events (snd (register2 s eid uid now)) eid = Some ev' \<and>
           js_or (maxAttendees ev') (capacity ev') = Some C \<and>
           int (length (attendees ev')) \<le> C"
  using assms
    register2_store_cases [of "s\<lparr>events := (events s)(eid \<mapsto> push_attendee ev uid)\<rparr>"
        eid "push_attendee ev uid" uid now]
  by (auto simp: register2_def register_catch_def register2_body_def at_capacity_def
      push_attendee_def split: option.splits)

lemma unregister_keeps_events: "events (snd (unregister s eid uid now)) = events s"
  by (auto simp: unregister_def Let_def map_upd_triv split: option.split)

lemma unregister_after_start:
  "events s eid = Some ev \<Longrightarrow> startDate ev \<le> now \<Longrightarrow>
     unregister s eid uid now =
       (Response 400 ''Cannot unregister from an event that has already started'', s)"
  by (simp add: unregister_def)

lemma mark_first_attended:
  "mark_first (\<lambda>a. oid_toString (user a) = oid_toString uid) True as = Some as' \<Longrightarrow>
     \<exists>a\<in>set as'. user a = uid \<and> attended a"
  by (induction as arbitrary: as') (auto split: if_splits)

lemma attended_iff:
  "list_ex (\<lambda>a. user a = uid \<and> attended a) as \<longleftrightarrow> (\<exists>a\<in>set as. user a = uid \<and> attended a)"
  by (simp add: list_ex_iff)

lemma reviewed_iff:
  "find (\<lambda>r. review_user r = uid) rs = None \<longleftrightarrow> \<not> (\<exists>r\<in>set rs. review_user r = uid)"
  by (auto simp: find_None_iff)

lemma submitReview_missing:
  "events s eid = None \<Longrightarrow> submitReview s eid uid rt cm = (Response 404 ''Event not found'', s)"
  by (simp add: submitReview_def)

lemma submitReview_not_attended:
  "events s eid = Some ev \<Longrightarrow> \<not> (\<exists>a\<in>set (attendees ev). user a = uid \<and> attended a) \<Longrightarrow>
     submitReview s eid uid rt cm =
       (Response 400 ''You must attend the event before leaving a review'', s)"
  by (simp add: submitReview_def attended_iff)

lemma submitReview_duplicate:
  "events s eid = Some ev \<Longrightarrow> \<exists>a\<in>set (attendees ev). user a = uid \<and> attended a \<Longrightarrow>
     \<exists>r\<in>set (reviews ev). review_user r = uid \<Longrightarrow>
     submitReview s eid uid rt cm = (Response 400 ''You already reviewed this event'', s)"
  using reviewed_iff [of uid "reviews ev"]
  by (auto simp: submitReview_def attended_iff split: option.split)

lemma submitReview_first:
  "events s eid = Some ev \<Longrightarrow> \<exists>a\<in>set (attendees ev). user a = uid \<and> attended a \<Longrightarrow>
     \<not> (\<exists>r\<in>set (reviews ev). review_user r = uid) \<Longrightarrow>
     submitReview s eid uid rt cm =
       (Response 200 ''Review added successfully'',
        s\<lparr>events := (events s)(eid \<mapsto>
             ev\<lparr>reviews := reviews ev @ [\<lparr>review_user = uid, rating = rt, comment = cm\<rparr>]\<rparr>)\<rparr>)"
  using reviewed_iff [of uid "reviews ev"]
  by (auto simp: submitReview_def attended_iff split: option.split)

lemma markAttendance_ok:
  assumes "status (fst (markAttendance s c eid (oid_toString uid) True)) = 200"
    and "events s eid = Some ev"
  shows "\<exists>as'. (\<exists>a\<in>set as'. user a = uid \<and> attended a) \<and>
           snd (markAttendance s c eid (oid_toString uid) True) =
             s\<lparr>events := (events s)(eid \<mapsto> ev\<lparr>attendees := as'\<rparr>)\<rparr>"
  using assms mark_first_attended [of uid "attendees ev"]
  by (auto simp: markAttendance_def split: if_splits option.splits)

lemma register1_store_response:
  "fst (register1_store s eid ev uid now) = Inr r \<Longrightarrow>
     r = Response 400 ''You are already registered for this event (eventregistrations).'' \<or>
     r = Response 500 ''Failed to save registration.''"
  by (auto simp: register1_store_def Let_def split: sum.splits option.splits)

lemma register1_full_iff:
  assumes "events s eid = Some ev" "isRegistrationRequired ev"
    "\<not> deadline_passed (registrationDeadline ev) now"
  shows "fst (register1 s eid uid now) = Response 400 ''Event is at full capacity'' \<longleftrightarrow>
           at_capacity (capacity ev) (length (attendees ev))"
  using assms
    register1_store_response [of "s\<lparr>events := (events s)(eid \<mapsto> push_attendee ev uid)\<rparr>"
        eid "push_attendee ev uid" uid now]
  by (auto simp: register1_def register_catch_def register1_body_def split: sum.splits)

lemma register2_full_iff:
  assumes "events s eid = Some ev" "isRegistrationRequired ev"
    "\<not> deadline_passed (registrationDeadline ev) now"
  shows "fst (register2 s eid uid now) = Response 400 ''Event is at full capacity'' \<longleftrightarrow>
           at_capacity (js_or (maxAttendees ev) (capacity ev)) (length (attendees ev))"
  using assms
    register2_store_cases [of "s\<lparr>events := (events s)(eid \<mapsto> push_attendee ev uid)\<rparr>"
        eid "push_attendee ev uid" uid now]
  by (auto simp: register2_def register_catch_def register2_body_def split: sum.splits option.splits)

lemma register_catch_fst_cong:
  "fst r = fst r' \<Longrightarrow> fst (register_catch r) = fst (register_catch r')"
  by (simp add: register_catch_def split: sum.split)

lemma register1_store_fst_cong:
  assumes "users s = users s'" "universities s = universities s'"
    "registrations s = registrations s'" "title ev = title ev'" "university ev = university ev'"
  shows "fst (register1_store s eid ev uid now) = fst (register1_store s' eid ev' uid now)"
proof -
  have r: "resolveUniversityName (s\<lparr>users := X\<rparr>) a b = resolveUniversityName (s'\<lparr>users := X\<rparr>) a b"
    for X a b
    by (simp add: resolveUniversityName_def Let_def assms
        cong: option.case_cong prod.case_cong if_cong)
  have n: "newRegistration (s\<lparr>users := X\<rparr>) eid ev uid usr uname now
         = newRegistration (s'\<lparr>users := X\<rparr>) eid ev' uid usr uname now" for X usr uname
    by (simp add: newRegistration_def eventTitle_of_def assms
        cong: option.case_cong prod.case_cong if_cong)
  show ?thesis
    by (simp add: register1_store_def Let_def assms r n split: sum.split option.split)
qed

lemma register1_maxAttendees_unread:
  "fst (register1 (s\<lparr>events := (events s)(eid \<mapsto> ev\<lparr>maxAttendees := m\<rparr>)\<rparr>) eid uid now)
     = fst (register1 (s\<lparr>events := (events s)(eid \<mapsto> ev)\<rparr>) eid uid now)"
  unfolding register1_def
  by (rule register_catch_fst_cong)
     (auto simp: register1_body_def push_attendee_def intro!: register1_store_fst_cong)

lemma register1_never_201: "status (fst (register1 s eid uid now)) \<noteq> 201"
proof (cases "events s eid")
  case None
  then show ?thesis by (simp add: register1_def register_catch_def register1_body_def)
next
  case (Some ev)
  show ?thesis
    using Some
      register1_store_response [of "s\<lparr>events := (events s)(eid \<mapsto> push_attendee ev uid)\<rparr>"
        eid "push_attendee ev uid" uid now]
    by (auto simp: register1_def register_catch_def register1_body_def split: sum.splits)
qed

lemma unregister_ok:
  assumes "status (fst (unregister s eid uid now)) = 200"
  shows "users (snd (unregister s eid uid now)) = pull_eventsAttended (users s) uid eid"
  using assms by (auto simp: unregister_def Let_def split: option.splits if_splits)





lemmas sample_defs =
  sampleDb_def sampleEvent_def sampleEventUntil10_def student_def eventE_def userA_def userB_def uniU_def clubC_def

lemmas handler_defs =
  register1_def register2_def register_catch_def register1_body_def register2_body_def
  register1_store_def register2_store_def resolveUniversityName_def newRegistration_def
  populate_def findRegistration_def push_attendee_def push_eventsAttended_def
  deadline_passed_def at_capacity_def js_or_def eventTitle_of_def bareRegistration_def
  register1_completed_def register2_succeeded_def

section \<open>Register: the order of the checks and the writes\<close>

text \<open>
  Claim C1. The six preconditions of Register are checked in the stated order before any
  effect, and a call that fails a precondition leaves the event and the registration
  collection unchanged; in particular a call rejected because the registration collection
  already holds a record for (event, user) appends no attendee.

  The second handler does this (\<open>register2_rejected_unchanged\<close>). The first handler looks
  into the registration collection only after it has pushed the attendee and saved the
  event: on an event without attendees and a collection that already holds a record for
  (event, Alice), Alice's call is answered 400 and the saved event has Alice as attendee.
\<close>

theorem register1_checks_store_after_push:
  "fst (register1 (sampleDb (sampleEvent None None []) [bareRegistration eventE userA]) eventE userA 5)
     = Response 400 ''You are already registered for this event (eventregistrations).'' \<and>
   map_option attendees
     (events (sampleDb (sampleEvent None None []) [bareRegistration eventE userA]) eventE) = Some [] \<and>
   map_option attendees
     (events (snd (register1 (sampleDb (sampleEvent None None []) [bareRegistration eventE userA])
                     eventE userA 5)) eventE)
     = Some [\<lparr>user = userA, attended = False\<rparr>] \<and>
   register2 (sampleDb (sampleEvent None None []) [bareRegistration eventE userA]) eventE userA 5
     = (Response 409 ''You have already registered for this event.'',
        sampleDb (sampleEvent None None []) [bareRegistration eventE userA])"
  by (simp add: handler_defs sample_defs)

section \<open>Register and the capacity of an event\<close>

text \<open>
  Claim C2. For an event whose effective capacity C is set, sequential Register calls
  starting with at most C attendees never leave more than C attendees.

  The second handler keeps the bound for a capacity other than zero
  (\<open>register2_keeps_capacity\<close>). The first handler reads only the legacy field
  \<open>capacity\<close>: on an event with \<open>maxAttendees = 1\<close>, no \<open>capacity\<close> and no attendees, Alice's
  call and then Bob's both go through and the event has two attendees.
\<close>

theorem register1_exceeds_maxAttendees:
  "js_or (maxAttendees (sampleEvent None (Some 1) [])) (capacity (sampleEvent None (Some 1) []))
     = Some 1 \<and>
   register1_completed (sampleDb (sampleEvent None (Some 1) []) []) eventE userA 5 \<and>
   register1_completed
     (snd (register1 (sampleDb (sampleEvent None (Some 1) []) []) eventE userA 5)) eventE userB 6 \<and>
   map_option attendees
     (events (snd (register1
                (snd (register1 (sampleDb (sampleEvent None (Some 1) []) []) eventE userA 5))
                eventE userB 6)) eventE)
     = Some [\<lparr>user = userA, attended = False\<rparr>, \<lparr>user = userB, attended = False\<rparr>]"
  by (simp add: handler_defs sample_defs)

text \<open>
  Claim C4. The capacity check of Register uses \<open>maxAttendees\<close> when present and the legacy
  \<open>capacity\<close> otherwise; an event with \<open>maxAttendees\<close> set and no \<open>capacity\<close> still has its
  limit enforced.

  On an event with \<open>maxAttendees = 1\<close>, no \<open>capacity\<close> and Bob as its one attendee, the
  second handler answers Alice with "Event is at full capacity" and changes nothing; the
  first handler does not make that answer and appends Alice.
\<close>

theorem register1_ignores_maxAttendees:
  "at_capacity (js_or (maxAttendees (sampleEvent None (Some 1) [\<lparr>user = userB, attended = False\<rparr>]))
                      (capacity (sampleEvent None (Some 1) [\<lparr>user = userB, attended = False\<rparr>])))
               (length (attendees (sampleEvent None (Some 1) [\<lparr>user = userB, attended = False\<rparr>]))) \<and>
   fst (register1 (sampleDb (sampleEvent None (Some 1) [\<lparr>user = userB, attended = False\<rparr>]) [])
          eventE userA 5) = Response 500 ''Registration failed. Please try again.'' \<and>
   map_option attendees
     (events (snd (register1
        (sampleDb (sampleEvent None (Some 1) [\<lparr>user = userB, attended = False\<rparr>]) [])
        eventE userA 5)) eventE)
     = Some [\<lparr>user = userB, attended = False\<rparr>, \<lparr>user = userA, attended = False\<rparr>] \<and>
   register2 (sampleDb (sampleEvent None (Some 1) [\<lparr>user = userB, attended = False\<rparr>]) [])
          eventE userA 5
     = (Response 400 ''Event is at full capacity'',
        sampleDb (sampleEvent None (Some 1) [\<lparr>user = userB, attended = False\<rparr>]) [])"
  by (simp add: handler_defs sample_defs)

section \<open>Registering twice\<close>

text \<open>
  Claim C5, as stated: after one successful Register, a second call for the same event
  and user always fails with DuplicateRegistration. It does not always: the deadline and
  the capacity are checked before the duplicate, so on an event with room for one
  attendee the second call is answered "Event is at full capacity".
\<close>

theorem register_again_counterexample:
  "register2_succeeded (sampleDb (sampleEvent None (Some 1) []) []) eventE userA 5 \<and>
   fst (register2 (snd (register2 (sampleDb (sampleEvent None (Some 1) []) []) eventE userA 5))
          eventE userA 6) = Response 400 ''Event is at full capacity'' \<and>
   register1_completed (sampleDb (sampleEvent (Some 1) None []) []) eventE userA 5 \<and>
   fst (register1 (snd (register1 (sampleDb (sampleEvent (Some 1) None []) []) eventE userA 5))
          eventE userA 6) = Response 400 ''Event is at full capacity''"
  by (simp add: handler_defs sample_defs)

text \<open>
  Claim C5, amended. After one successful Register (answered 201), a second call for the
  same event and user always fails and leaves the state exactly as the first call left
  it: no second attendee, no second registration record. The failure is DeadlinePassed
  when the registration deadline has passed at the second call, otherwise
  CapacityExceeded when the event, now holding the caller, has reached its capacity,
  otherwise DuplicateRegistration. This holds whichever handler answers the second call
  (the first reads the legacy capacity field and answers duplicates with 400, the second
  reads \<open>maxAttendees || capacity\<close> and answers 409).
\<close>

theorem register_again_rejected:
  "register2_succeeded s eid uid t1 \<longrightarrow>
     (\<exists>ev. events s eid = Some ev \<and>
        events (snd (register2 s eid uid t1)) eid = Some (push_attendee ev uid) \<and>
        register2 (snd (register2 s eid uid t1)) eid uid t2 =
          (if deadline_passed (registrationDeadline ev) t2
           then Response 400 ''Registration deadline has passed''
           else if at_capacity (js_or (maxAttendees ev) (capacity ev))
                     (Suc (length (attendees ev)))
           then Response 400 ''Event is at full capacity''
           else Response 409 ''You have already registered for this event.'',
           snd (register2 s eid uid t1)) \<and>
        register1 (snd (register2 s eid uid t1)) eid uid t2 =
          (if deadline_passed (registrationDeadline ev) t2
           then Response 400 ''Registration deadline has passed''
           else if at_capacity (capacity ev) (Suc (length (attendees ev)))
           then Response 400 ''Event is at full capacity''
           else Response 400 ''You are already registered for this event'',
           snd (register2 s eid uid t1)))"
proof
  assume ok: "register2_succeeded s eid uid t1"
  define s1 where "s1 = snd (register2 s eid uid t1)"
  from register2_succeeded_state [OF ok] obtain ev reg where
    ev: "events s eid = Some ev" "isRegistrationRequired ev"
    and s1: "s1 = s\<lparr>events := (events s)(eid \<mapsto> push_attendee ev uid),
                     registrations := registrations s @ [reg]\<rparr>"
    unfolding s1_def by blast
  have e1: "events s1 eid = Some (push_attendee ev uid)"
    and r1: "isRegistrationRequired (push_attendee ev uid)"
    and a1: "uid \<in> user ` set (attendees (push_attendee ev uid))"
    using ev by (simp_all add: s1 push_attendee_def)
  have "register2 s1 eid uid t2 =
          (if deadline_passed (registrationDeadline ev) t2
           then Response 400 ''Registration deadline has passed''
           else if at_capacity (js_or (maxAttendees ev) (capacity ev))
                     (Suc (length (attendees ev)))
           then Response 400 ''Event is at full capacity''
           else Response 409 ''You have already registered for this event.'', s1)"
    using register2_attending [OF e1 r1 a1, of t2] by (simp add: push_attendee_def)
  moreover have "register1 s1 eid uid t2 =
          (if deadline_passed (registrationDeadline ev) t2
           then Response 400 ''Registration deadline has passed''
           else if at_capacity (capacity ev) (Suc (length (attendees ev)))
           then Response 400 ''Event is at full capacity''
           else Response 400 ''You are already registered for this event'', s1)"
    using register1_attending [OF e1 r1 a1, of t2] by (simp add: push_attendee_def)
  ultimately show "\<exists>ev. events s eid = Some ev \<and>
        events (snd (register2 s eid uid t1)) eid = Some (push_attendee ev uid) \<and>
        register2 (snd (register2 s eid uid t1)) eid uid t2 =
          (if deadline_passed (registrationDeadline ev) t2
           then Response 400 ''Registration deadline has passed''
           else if at_capacity (js_or (maxAttendees ev) (capacity ev))
                     (Suc (length (attendees ev)))
           then Response 400 ''Event is at full capacity''
           else Response 409 ''You have already registered for this event.'',
           snd (register2 s eid uid t1)) \<and>
        register1 (snd (register2 s eid uid t1)) eid uid t2 =
          (if deadline_passed (registrationDeadline ev) t2
           then Response 400 ''Registration deadline has passed''
           else if at_capacity (capacity ev) (Suc (length (attendees ev)))
           then Response 400 ''Event is at full capacity''
           else Response 400 ''You are already registered for this event'',
           snd (register2 s eid uid t1))"
    using ev e1 unfolding s1_def by blast
qed

theorem register_again_rejected_witness:
  "register2_succeeded (sampleDb (sampleEventUntil10 None (Some 2) []) []) eventE userA 5 \<and>
   register2 (snd (register2 (sampleDb (sampleEventUntil10 None (Some 2) []) []) eventE userA 5))
       eventE userA 6
     = (Response 409 ''You have already registered for this event.'',
        snd (register2 (sampleDb (sampleEventUntil10 None (Some 2) []) []) eventE userA 5)) \<and>
   register2 (snd (register2 (sampleDb (sampleEventUntil10 None (Some 2) []) []) eventE userA 5))
       eventE userA 11
     = (Response 400 ''Registration deadline has passed'',
        snd (register2 (sampleDb (sampleEventUntil10 None (Some 2) []) []) eventE userA 5)) \<and>
   register1 (snd (register2 (sampleDb (sampleEventUntil10 None (Some 2) []) []) eventE userA 5))
       eventE userA 6
     = (Response 400 ''You are already registered for this event'',
        snd (register2 (sampleDb (sampleEventUntil10 None (Some 2) []) []) eventE userA 5)) \<and>
   register2_succeeded (sampleDb (sampleEventUntil10 None (Some 1) []) []) eventE userA 5 \<and>
   register2 (snd (register2 (sampleDb (sampleEventUntil10 None (Some 1) []) []) eventE userA 5))
       eventE userA 6
     = (Response 400 ''Event is at full capacity'',
        snd (register2 (sampleDb (sampleEventUntil10 None (Some 1) []) []) eventE userA 5)) \<and>
   register2 (snd (register2 (sampleDb (sampleEventUntil10 None (Some 1) []) []) eventE userA 5))
       eventE userA 11
     = (Response 400 ''Registration deadline has passed'',
        snd (register2 (sampleDb (sampleEventUntil10 None (Some 1) []) []) eventE userA 5))"
proof -
  have ok: "register2_succeeded (sampleDb (sampleEventUntil10 None (Some m) []) []) eventE userA 5"
    if "m = 1 \<or> m = 2" for m :: int
    using that by (auto simp: handler_defs sample_defs)
  have ev: "events (sampleDb (sampleEventUntil10 None (Some m) []) []) eventE
      = Some (sampleEventUntil10 None (Some m) [])" for m
    by (simp add: sample_defs)
  have again: "register2 (snd (register2 (sampleDb (sampleEventUntil10 None (Some m) []) [])
                                  eventE userA 5)) eventE userA t2 =
          (if deadline_passed (registrationDeadline (sampleEventUntil10 None (Some m) [])) t2
           then Response 400 ''Registration deadline has passed''
           else if at_capacity (js_or (maxAttendees (sampleEventUntil10 None (Some m) []))
                                      (capacity (sampleEventUntil10 None (Some m) [])))
                     (Suc (length (attendees (sampleEventUntil10 None (Some m) []))))
           then Response 400 ''Event is at full capacity''
           else Response 409 ''You have already registered for this event.'',
           snd (register2 (sampleDb (sampleEventUntil10 None (Some m) []) []) eventE userA 5))"
    and again1: "register1 (snd (register2 (sampleDb (sampleEventUntil10 None (Some m) []) [])
                                  eventE userA 5)) eventE userA t2 =
          (if deadline_passed (registrationDeadline (sampleEventUntil10 None (Some m) [])) t2
           then Response 400 ''Registration deadline has passed''
           else if at_capacity (capacity (sampleEventUntil10 None (Some m) []))
                     (Suc (length (attendees (sampleEventUntil10 None (Some m) []))))
           then Response 400 ''Event is at full capacity''
           else Response 400 ''You are already registered for this event'',
           snd (register2 (sampleDb (sampleEventUntil10 None (Some m) []) []) eventE userA 5))"
    if "m = 1 \<or> m = 2" for m :: int and t2
    using register_again_rejected
        [of "sampleDb (sampleEventUntil10 None (Some m) []) []" eventE userA 5 t2]
      ok [OF that] ev [of m]
    by auto
  have conds:
    "\<not> deadline_passed (registrationDeadline (sampleEventUntil10 None (Some m) [])) 6"
    "deadline_passed (registrationDeadline (sampleEventUntil10 None (Some m) [])) 11"
    "\<not> at_capacity (js_or (maxAttendees (sampleEventUntil10 None (Some 2) []))
                           (capacity (sampleEventUntil10 None (Some 2) [])))
          (Suc (length (attendees (sampleEventUntil10 None (Some 2) []))))"
    "at_capacity (js_or (maxAttendees (sampleEventUntil10 None (Some 1) []))
                        (capacity (sampleEventUntil10 None (Some 1) [])))
          (Suc (length (attendees (sampleEventUntil10 None (Some 1) []))))"
    "\<not> at_capacity (capacity (sampleEventUntil10 None (Some 2) []))
          (Suc (length (attendees (sampleEventUntil10 None (Some 2) []))))"
    for m
    by (simp_all add: sample_defs deadline_passed_def at_capacity_def js_or_def)
  show ?thesis
    using ok [of 1] ok [of 2] conds
    by (simp add: again [of 1] again [of 2] again1 [of 2])
qed

section \<open>Unregister\<close>

text \<open>
  Claim C3. Unregister before the start of the event succeeds and removes exactly the
  caller's attendee entry; at or after the start it fails and leaves the list unchanged.

  The second half holds (\<open>unregister_after_start\<close>). The first does not: the filter
  compares the printed subdocument with the caller's identifier, which never match, so
  the call answers 200 and removes nothing (\<open>unregister_keeps_events\<close>). Here Alice, the
  only attendee, unregisters at time 5 from an event that starts at time 1000.
\<close>

theorem unregister_leaves_attendee:
  "fst (unregister (sampleDb (sampleEvent None None [\<lparr>user = userA, attended = False\<rparr>]) [])
          eventE userA 5)
     = Response 200 ''Successfully unregistered from the event'' \<and>
   map_option attendees
     (events (snd (unregister
        (sampleDb (sampleEvent None None [\<lparr>user = userA, attended = False\<rparr>]) [])
        eventE userA 5)) eventE)
     = Some [\<lparr>user = userA, attended = False\<rparr>]"
  by (simp add: unregister_def Let_def pull_eventsAttended_def sample_defs)

section \<open>Unregister and the registration collection\<close>

text \<open>
  Claim C6. Unregister never deletes or modifies a record of the registration
  collection: after every Unregister call, successful or rejected, the collection is
  exactly what it was before the call.
\<close>

theorem unregister_keeps_registrations:
  "registrations (snd (unregister s eid uid now)) = registrations s"
  by (simp add: unregister_def Let_def split: option.split)

section \<open>Reviews\<close>

text \<open>
  Claim C7. SubmitReview fails NotFound when the event is missing; fails InvalidOperation
  when the event has no attendee entry for the user with the attended flag set; fails
  DuplicateReview when the event already holds a review by the user; otherwise it appends
  exactly one review {user, rating, comment} and saves the event. The checks run in this
  order. So after MarkAttendance has set the flag for a user without a review, the user's
  first SubmitReview succeeds and an identical second one fails DuplicateReview, leaving
  the state as the first left it.
\<close>

theorem submitReview_outcomes:
  "(events s eid = None \<longrightarrow>
      submitReview s eid uid rt cm = (Response 404 ''Event not found'', s)) \<and>
   (events s eid = Some ev \<and> \<not> (\<exists>a\<in>set (attendees ev). user a = uid \<and> attended a) \<longrightarrow>
      submitReview s eid uid rt cm =
        (Response 400 ''You must attend the event before leaving a review'', s)) \<and>
   (events s eid = Some ev \<and> (\<exists>a\<in>set (attendees ev). user a = uid \<and> attended a) \<and>
    (\<exists>r\<in>set (reviews ev). review_user r = uid) \<longrightarrow>
      submitReview s eid uid rt cm = (Response 400 ''You already reviewed this event'', s)) \<and>
   (events s eid = Some ev \<and> (\<exists>a\<in>set (attendees ev). user a = uid \<and> attended a) \<and>
    \<not> (\<exists>r\<in>set (reviews ev). review_user r = uid) \<longrightarrow>
      submitReview s eid uid rt cm =
        (Response 200 ''Review added successfully'',
         s\<lparr>events := (events s)(eid \<mapsto>
              ev\<lparr>reviews := reviews ev
                    @ [\<lparr>review_user = uid, rating = rt, comment = cm\<rparr>]\<rparr>)\<rparr>)) \<and>
   (events s eid = Some ev \<and> \<not> (\<exists>r\<in>set (reviews ev). review_user r = uid) \<and>
    status (fst (markAttendance s c eid (oid_toString uid) True)) = 200 \<longrightarrow>
      fst (submitReview (snd (markAttendance s c eid (oid_toString uid) True)) eid uid rt cm)
        = Response 200 ''Review added successfully'' \<and>
      submitReview
        (snd (submitReview (snd (markAttendance s c eid (oid_toString uid) True)) eid uid rt cm))
        eid uid rt cm
        = (Response 400 ''You already reviewed this event'',
           snd (submitReview (snd (markAttendance s c eid (oid_toString uid) True)) eid uid rt cm)))"
proof (intro conjI impI)
  assume a: "events s eid = Some ev \<and> \<not> (\<exists>r\<in>set (reviews ev). review_user r = uid) \<and>
    status (fst (markAttendance s c eid (oid_toString uid) True)) = 200"
  define s1 where "s1 = snd (markAttendance s c eid (oid_toString uid) True)"
  from a markAttendance_ok [of s c eid uid ev] obtain as' where
    att: "\<exists>a\<in>set as'. user a = uid \<and> attended a"
    and s1: "s1 = s\<lparr>events := (events s)(eid \<mapsto> ev\<lparr>attendees := as'\<rparr>)\<rparr>"
    unfolding s1_def by blast
  let ?ev1 = "ev\<lparr>attendees := as'\<rparr>"
  have e1: "events s1 eid = Some ?ev1" by (simp add: s1)
  have first: "submitReview s1 eid uid rt cm =
       (Response 200 ''Review added successfully'',
        s1\<lparr>events := (events s1)(eid \<mapsto>
             ?ev1\<lparr>reviews := reviews ?ev1 @ [\<lparr>review_user = uid, rating = rt, comment = cm\<rparr>]\<rparr>)\<rparr>)"
    using a att by (intro submitReview_first [OF e1]) auto
  show "fst (submitReview s1 eid uid rt cm) = Response 200 ''Review added successfully''"
    by (simp add: first)
  let ?ev2 = "?ev1\<lparr>reviews := reviews ?ev1 @ [\<lparr>review_user = uid, rating = rt, comment = cm\<rparr>]\<rparr>"
  have e2: "events (snd (submitReview s1 eid uid rt cm)) eid = Some ?ev2"
    by (simp add: first)
  show "submitReview (snd (submitReview s1 eid uid rt cm)) eid uid rt cm
        = (Response 400 ''You already reviewed this event'', snd (submitReview s1 eid uid rt cm))"
    using att by (intro submitReview_duplicate [OF e2]) auto
qed (simp_all add: submitReview_missing submitReview_not_attended submitReview_duplicate
      submitReview_first)

theorem submitReview_outcomes_witness:
  "submitReview (sampleDb (sampleEvent None None []) []) userA userA 5 ''Great''
     = (Response 404 ''Event not found'', sampleDb (sampleEvent None None []) []) \<and>
   submitReview (sampleDb (sampleEvent None None [\<lparr>user = userA, attended = False\<rparr>]) [])
       eventE userA 5 ''Great''
     = (Response 400 ''You must attend the event before leaving a review'',
        sampleDb (sampleEvent None None [\<lparr>user = userA, attended = False\<rparr>]) []) \<and>
   status (fst (markAttendance
        (sampleDb (sampleEvent None None [\<lparr>user = userA, attended = False\<rparr>]) [])
        bob eventE (oid_toString userA) True)) = 200 \<and>
   fst (submitReview
     (snd (markAttendance (sampleDb (sampleEvent None None [\<lparr>user = userA, attended = False\<rparr>]) [])
        bob eventE (oid_toString userA) True)) eventE userA 5 ''Great'')
     = Response 200 ''Review added successfully'' \<and>
   fst (submitReview (snd (submitReview
     (snd (markAttendance (sampleDb (sampleEvent None None [\<lparr>user = userA, attended = False\<rparr>]) [])
        bob eventE (oid_toString userA) True)) eventE userA 5 ''Great'')) eventE userA 5 ''Great'')
     = Response 400 ''You already reviewed this event''"
proof -
  let ?ev = "sampleEvent None None [\<lparr>user = userA, attended = False\<rparr>]"
  let ?s = "sampleDb ?ev []"
  have none: "events (sampleDb (sampleEvent None None []) []) userA = None"
    by (simp add: sample_defs)
  have ev: "events ?s eventE = Some ?ev"
    by (simp add: sample_defs)
  have not_att: "\<not> (\<exists>a\<in>set (attendees ?ev). user a = userA \<and> attended a)"
    by (simp add: sample_defs)
  have no_rev: "\<not> (\<exists>r\<in>set (reviews ?ev). review_user r = userA)"
    by (simp add: sample_defs)
  have marked: "status (fst (markAttendance ?s bob eventE (oid_toString userA) True)) = 200"
    by (simp add: markAttendance_def club_president_def populate_def bob_def sample_defs)
  from submitReview_outcomes [where s = "sampleDb (sampleEvent None None []) []" and eid = userA
      and uid = userA and rt = 5 and cm = "''Great''"]
    none
  have c1: "submitReview (sampleDb (sampleEvent None None []) []) userA userA 5 ''Great''
     = (Response 404 ''Event not found'', sampleDb (sampleEvent None None []) [])"
    by blast
  from submitReview_outcomes [where s = ?s and eid = eventE and ev = ?ev and uid = userA
      and rt = 5 and cm = "''Great''" and c = bob] ev not_att no_rev marked
  have "submitReview ?s eventE userA 5 ''Great''
     = (Response 400 ''You must attend the event before leaving a review'', ?s) \<and>
    fst (submitReview (snd (markAttendance ?s bob eventE (oid_toString userA) True))
           eventE userA 5 ''Great'') = Response 200 ''Review added successfully'' \<and>
    fst (submitReview (snd (submitReview
           (snd (markAttendance ?s bob eventE (oid_toString userA) True)) eventE userA 5 ''Great''))
           eventE userA 5 ''Great'') = Response 400 ''You already reviewed this event''"
    by simp
  with c1 marked show ?thesis by simp
qed

section \<open>The two register handlers\<close>

text \<open>
  Claim C8. The two handlers registered for the register route are not equivalent. When
  the caller is already an attendee (and the earlier checks pass) the first answers 400
  and the second 409. The capacity check of the first reads only the legacy field
  \<open>capacity\<close>: it answers "Event is at full capacity" exactly when that field is reached,
  and its response does not change when \<open>maxAttendees\<close> is changed. The capacity check of
  the second reads \<open>maxAttendees\<close> and falls back to \<open>capacity\<close> (\<open>js_or\<close>). So there are
  requests the two handlers answer differently.
\<close>

theorem register_handlers_differ:
  "(events s eid = Some ev \<and> isRegistrationRequired ev \<and>
    \<not> deadline_passed (registrationDeadline ev) now \<and>
    \<not> at_capacity (capacity ev) (length (attendees ev)) \<and>
    \<not> at_capacity (js_or (maxAttendees ev) (capacity ev)) (length (attendees ev)) \<and>
    uid \<in> user ` set (attendees ev) \<longrightarrow>
      status (fst (register1 s eid uid now)) = 400 \<and>
      status (fst (register2 s eid uid now)) = 409) \<and>
   (events s eid = Some ev \<and> isRegistrationRequired ev \<and>
    \<not> deadline_passed (registrationDeadline ev) now \<longrightarrow>
      (fst (register1 s eid uid now) = Response 400 ''Event is at full capacity'' \<longleftrightarrow>
         at_capacity (capacity ev) (length (attendees ev))) \<and>
      (fst (register2 s eid uid now) = Response 400 ''Event is at full capacity'' \<longleftrightarrow>
         at_capacity (js_or (maxAttendees ev) (capacity ev)) (length (attendees ev)))) \<and>
   fst (register1 (s\<lparr>events := (events s)(eid \<mapsto> ev\<lparr>maxAttendees := m\<rparr>)\<rparr>) eid uid now)
     = fst (register1 (s\<lparr>events := (events s)(eid \<mapsto> ev)\<rparr>) eid uid now) \<and>
   (\<exists>s' eid' uid' now'.
      fst (register1 s' eid' uid' now') \<noteq> fst (register2 s' eid' uid' now'))"
proof (intro conjI impI)
  assume a: "events s eid = Some ev \<and> isRegistrationRequired ev \<and>
    \<not> deadline_passed (registrationDeadline ev) now \<and>
    \<not> at_capacity (capacity ev) (length (attendees ev)) \<and>
    \<not> at_capacity (js_or (maxAttendees ev) (capacity ev)) (length (attendees ev)) \<and>
    uid \<in> user ` set (attendees ev)"
  then show "status (fst (register1 s eid uid now)) = 400"
    by (simp add: register1_attending [of s eid ev uid now])
  from a show "status (fst (register2 s eid uid now)) = 409"
    by (simp add: register2_attending [of s eid ev uid now])
next
  assume "events s eid = Some ev \<and> isRegistrationRequired ev \<and>
    \<not> deadline_passed (registrationDeadline ev) now"
  then show "fst (register1 s eid uid now) = Response 400 ''Event is at full capacity'' \<longleftrightarrow>
         at_capacity (capacity ev) (length (attendees ev))"
    by (intro register1_full_iff) simp_all
next
  assume "events s eid = Some ev \<and> isRegistrationRequired ev \<and>
    \<not> deadline_passed (registrationDeadline ev) now"
  then show "fst (register2 s eid uid now) = Response 400 ''Event is at full capacity'' \<longleftrightarrow>
         at_capacity (js_or (maxAttendees ev) (capacity ev)) (length (attendees ev))"
    by (intro register2_full_iff) simp_all
next
  show "fst (register1 (s\<lparr>events := (events s)(eid \<mapsto> ev\<lparr>maxAttendees := m\<rparr>)\<rparr>) eid uid now)
     = fst (register1 (s\<lparr>events := (events s)(eid \<mapsto> ev)\<rparr>) eid uid now)"
    by (rule register1_maxAttendees_unread)
next
  have "fst (register1 (sampleDb (sampleEvent None None [\<lparr>user = userA, attended = False\<rparr>]) [])
               eventE userA 5)
      \<noteq> fst (register2 (sampleDb (sampleEvent None None [\<lparr>user = userA, attended = False\<rparr>]) [])
               eventE userA 5)"
    by (simp add: handler_defs sample_defs)
  then show "\<exists>s' eid' uid' now'.
      fst (register1 s' eid' uid' now') \<noteq> fst (register2 s' eid' uid' now')"
    by blast
qed

theorem register_handlers_differ_witness:
  "status (fst (register1 (sampleDb (sampleEvent None None [\<lparr>user = userA, attended = False\<rparr>]) [])
                  eventE userA 5)) = 400 \<and>
   status (fst (register2 (sampleDb (sampleEvent None None [\<lparr>user = userA, attended = False\<rparr>]) [])
                  eventE userA 5)) = 409 \<and>
   fst (register1 (sampleDb (sampleEvent (Some 1) (Some 5) [\<lparr>user = userB, attended = False\<rparr>]) [])
          eventE userA 5) = Response 400 ''Event is at full capacity'' \<and>
   fst (register2 (sampleDb (sampleEvent (Some 1) (Some 5) [\<lparr>user = userB, attended = False\<rparr>]) [])
          eventE userA 5) \<noteq> Response 400 ''Event is at full capacity'' \<and>
   fst (register1 (sampleDb (sampleEvent None (Some 1) [\<lparr>user = userB, attended = False\<rparr>]) [])
          eventE userA 5) \<noteq> Response 400 ''Event is at full capacity'' \<and>
   fst (register2 (sampleDb (sampleEvent None (Some 1) [\<lparr>user = userB, attended = False\<rparr>]) [])
          eventE userA 5) = Response 400 ''Event is at full capacity'' \<and>
   fst (register2 (sampleDb (sampleEvent (Some 1) None [\<lparr>user = userB, attended = False\<rparr>]) [])
          eventE userA 5) = Response 400 ''Event is at full capacity''"
proof -
  have dup: "events (sampleDb (sampleEvent None None [\<lparr>user = userA, attended = False\<rparr>]) []) eventE
        = Some (sampleEvent None None [\<lparr>user = userA, attended = False\<rparr>]) \<and>
      isRegistrationRequired (sampleEvent None None [\<lparr>user = userA, attended = False\<rparr>]) \<and>
      \<not> deadline_passed
          (registrationDeadline (sampleEvent None None [\<lparr>user = userA, attended = False\<rparr>])) 5 \<and>
      \<not> at_capacity (capacity (sampleEvent None None [\<lparr>user = userA, attended = False\<rparr>]))
          (length (attendees (sampleEvent None None [\<lparr>user = userA, attended = False\<rparr>]))) \<and>
      \<not> at_capacity
          (js_or (maxAttendees (sampleEvent None None [\<lparr>user = userA, attended = False\<rparr>]))
             (capacity (sampleEvent None None [\<lparr>user = userA, attended = False\<rparr>])))
          (length (attendees (sampleEvent None None [\<lparr>user = userA, attended = False\<rparr>]))) \<and>
      userA \<in> user ` set (attendees (sampleEvent None None [\<lparr>user = userA, attended = False\<rparr>]))"
    by (simp add: sample_defs deadline_passed_def at_capacity_def js_or_def)
  have pre: "events (sampleDb (sampleEvent c m [\<lparr>user = userB, attended = False\<rparr>]) []) eventE
        = Some (sampleEvent c m [\<lparr>user = userB, attended = False\<rparr>]) \<and>
      isRegistrationRequired (sampleEvent c m [\<lparr>user = userB, attended = False\<rparr>]) \<and>
      \<not> deadline_passed
          (registrationDeadline (sampleEvent c m [\<lparr>user = userB, attended = False\<rparr>])) 5" for c m
    by (simp add: sample_defs deadline_passed_def)
  have caps:
    "at_capacity (capacity (sampleEvent (Some 1) (Some 5) [\<lparr>user = userB, attended = False\<rparr>]))
       (length (attendees (sampleEvent (Some 1) (Some 5) [\<lparr>user = userB, attended = False\<rparr>])))"
    "\<not> at_capacity
       (js_or (maxAttendees (sampleEvent (Some 1) (Some 5) [\<lparr>user = userB, attended = False\<rparr>]))
          (capacity (sampleEvent (Some 1) (Some 5) [\<lparr>user = userB, attended = False\<rparr>])))
       (length (attendees (sampleEvent (Some 1) (Some 5) [\<lparr>user = userB, attended = False\<rparr>])))"
    "\<not> at_capacity (capacity (sampleEvent None (Some 1) [\<lparr>user = userB, attended = False\<rparr>]))
       (length (attendees (sampleEvent None (Some 1) [\<lparr>user = userB, attended = False\<rparr>])))"
    "at_capacity
       (js_or (maxAttendees (sampleEvent None (Some 1) [\<lparr>user = userB, attended = False\<rparr>]))
          (capacity (sampleEvent None (Some 1) [\<lparr>user = userB, attended = False\<rparr>])))
       (length (attendees (sampleEvent None (Some 1) [\<lparr>user = userB, attended = False\<rparr>])))"
    "at_capacity
       (js_or (maxAttendees (sampleEvent (Some 1) None [\<lparr>user = userB, attended = False\<rparr>]))
          (capacity (sampleEvent (Some 1) None [\<lparr>user = userB, attended = False\<rparr>])))
       (length (attendees (sampleEvent (Some 1) None [\<lparr>user = userB, attended = False\<rparr>])))"
    by (simp_all add: sampleEvent_def at_capacity_def js_or_def)
  note d = register_handlers_differ
    [where s = "sampleDb (sampleEvent None None [\<lparr>user = userA, attended = False\<rparr>]) []"
       and eid = eventE and uid = userA and now = 5
       and ev = "sampleEvent None None [\<lparr>user = userA, attended = False\<rparr>]", THEN conjunct1,
     rule_format, OF dup]
  note c = register_handlers_differ
    [where eid = eventE and uid = userA and now = 5, THEN conjunct2, THEN conjunct1, rule_format,
     OF pre]
  show ?thesis
    using d c [of "Some 1" "Some 5"] c [of None "Some 1"] c [of "Some 1" None] caps
    by simp
qed

section \<open>The standalone registration endpoint\<close>




section \<open>The user's list of attended events\<close>

text \<open>
  What the two handlers do to the users collection. A run of the first register handler
  that passes every check and does every write leaves the collection as it was but for
  the caller's \<open>eventsAttended\<close>, extended by {event, attendedDate = the time of the call};
  an Unregister answered 200 leaves it as it was but for the caller's entries for the
  event, which are gone.
\<close>

lemma register1_completed_pushes:
  assumes "register1_completed s eid uid now" and "users s uid = Some u"
  shows "users (snd (register1 s eid uid now)) =
           (users s)(uid \<mapsto> u\<lparr>eventsAttended :=
                                  eventsAttended u @ [\<lparr>ea_event = eid, attendedDate = now\<rparr>]\<rparr>)"
proof -
  from assms(1) obtain ev reg where
    "snd (register1_body s eid uid now) =
        s\<lparr>events := (events s)(eid \<mapsto> push_attendee ev uid),
          users := push_eventsAttended (users s) uid eid now,
          registrations := registrations s @ [reg]\<rparr>"
    using register1_completed_state [of s eid uid now] by blast
  with assms(2) show ?thesis
    by (simp add: register1_snd push_eventsAttended_def)
qed

lemma register1_completed_500:
  "register1_completed s eid uid now \<Longrightarrow>
     fst (register1 s eid uid now) = Response 500 ''Registration failed. Please try again.''"
  by (simp add: register1_completed_def register1_def register_catch_def)

lemma unregister_pulls:
  assumes "status (fst (unregister s eid uid now)) = 200"
  shows "users (snd (unregister s eid uid now)) =
           (case users s uid of
              None \<Rightarrow> users s
            | Some u \<Rightarrow> (users s)(uid \<mapsto> u\<lparr>eventsAttended :=
                             filter (\<lambda>x. ea_event x \<noteq> eid) (eventsAttended u)\<rparr>))"
  using assms by (simp add: unregister_ok pull_eventsAttended_def)


end
